theory Spec2Isabelle
  imports Complex_Main
begin

section \<open>The map view of app/src/frontend/map/map.tsx\<close>

text \<open>
  The component \<open>ColouringMap\<close> owns three pieces of state (\<open>dataLayers\<close>, \<open>position\<close>,
  \<open>zoom\<close>), three callbacks that act on it or on its collaborators (\<open>handleLocate\<close>,
  \<open>handleClick\<close>, \<open>layerSwitch\<close>) and a render function that maps props, theme and state to
  a tree of elements. The callbacks are modelled by explicit state passing, the render
  function by a function into a datatype of elements.

  A JavaScript \<open>number\<close> is modelled as a real: the callbacks only store and compare
  numbers, so no rounding is involved; \<open>NaN\<close> and the infinities are not represented.
  A prop that may be \<open>undefined\<close> is an \<open>option\<close>, \<open>None\<close> being \<open>undefined\<close>.
\<close>

type_synonym number = real

subsection \<open>Data\<close>

text \<open>\<open>LayerEnablementState\<close>: the two strings \<open>'enabled'\<close> and \<open>'disabled'\<close>.\<close>

datatype LayerEnablementState = Enabled | Disabled

text \<open>The prop \<open>mode: 'basic' | 'view' | 'edit' | 'multi-edit'\<close>.\<close>

datatype Mode = Basic | View | Edit | MultiEdit

text \<open>
  \<open>initialMapViewport\<close> is imported from the map configuration, which is not part of the
  sources at hand; it is a parameter of the model.
\<close>

record map_viewport =
  viewport_position :: "number \<times> number"
  viewport_zoom :: number

text \<open>The three \<open>useState\<close> cells of the component.\<close>

record controller_state =
  dataLayers :: LayerEnablementState
  position :: "number \<times> number"
  zoom :: number

text \<open>
  The props that the render function reads. The types \<open>BuildingMapTileset\<close> and
  \<open>CategoryMapDefinition\<close> are declared outside the sources at hand and are the type
  parameters \<open>'t\<close> and \<open>'d\<close>; a value of \<open>'t\<close> stands for a tileset name, which is truthy
  in JavaScript, and \<open>None\<close> for an unset colour scale.
\<close>

record ('t, 'd) props =
  selectedBuildingId :: "number option"
  mode :: Mode
  revisionId :: string
  mapColourScale :: "'t option"
  categoryMapDefinitions :: "'d list"

definition initial_state :: "map_viewport \<Rightarrow> controller_state" where
  "initial_state initialMapViewport =
     \<lparr> dataLayers = Disabled,
       position = viewport_position initialMapViewport,
       zoom = viewport_zoom initialMapViewport \<rparr>"

subsection \<open>The callbacks\<close>

text \<open>\<open>handleLocate\<close>: \<open>setPosition([lat, lng]); setZoom(zoom)\<close>.\<close>

definition handleLocate :: "number \<Rightarrow> number \<Rightarrow> number \<Rightarrow> controller_state \<Rightarrow> controller_state" where
  "handleLocate lat lng z s = s\<lparr> position := (lat, lng), zoom := z \<rparr>"

text \<open>
  \<open>layerSwitch\<close>: \<open>(dataLayers === 'enabled') ? 'disabled' : 'enabled'\<close>, then
  \<open>setDataLayers\<close>. The call \<open>e.preventDefault()\<close> acts on the event only.
\<close>

definition layerSwitch :: "controller_state \<Rightarrow> controller_state" where
  "layerSwitch s =
     (let newDisplayState = (if dataLayers s = Enabled then Disabled else Enabled)
      in s\<lparr> dataLayers := newDisplayState \<rparr>)"

text \<open>
  What \<open>await apiGet(...)\<close> can deliver: the promise rejects, or it resolves to a value
  that is \<open>null\<close>/\<open>undefined\<close> or an array of entities. \<open>apiGet\<close> itself is a collaborator
  and a parameter of the model; the query string carries the two coordinates of the click.
\<close>

datatype 'b api_data = NoData | DataArray "'b list"

datatype 'b api_result = Rejected | Resolved "'b api_data"

text \<open>\<open>data?.[0]\<close>: \<open>undefined\<close> when there is no data or the array is empty.\<close>

fun first_entity :: "'b api_data \<Rightarrow> 'b option" where
  "first_entity NoData = None"
| "first_entity (DataArray []) = None"
| "first_entity (DataArray (b # bs)) = Some b"

text \<open>
  The effects of the click handler on its collaborators: the lookups issued, and the
  arguments of the calls of \<open>onBuildingAction\<close>, in order (\<open>None\<close> is \<open>undefined\<close>).
\<close>

record 'b effects =
  lookups :: "(number \<times> number) list"
  actions :: "'b option list"

definition no_effects :: "'b effects" where
  "no_effects = \<lparr> lookups = [], actions = [] \<rparr>"

definition handleClick ::
  "(number \<times> number \<Rightarrow> 'b api_result) \<Rightarrow> number \<times> number \<Rightarrow>
   controller_state \<times> 'b effects \<Rightarrow> controller_state \<times> 'b effects" where
  "handleClick apiGet latlng w =
     (let s = fst w;
          fx = (snd w)\<lparr> lookups := lookups (snd w) @ [latlng] \<rparr>
      in case apiGet latlng of
           Rejected \<Rightarrow> (s, fx)
         | Resolved data \<Rightarrow>
             (let building = first_entity data
              in (s, fx\<lparr> actions := actions fx @ [building] \<rparr>)))"

subsection \<open>Runs of the controller\<close>

datatype operation = Locate number number number | Click "number \<times> number" | ToggleLayerGroup

fun step ::
  "(number \<times> number \<Rightarrow> 'b api_result) \<Rightarrow> controller_state \<times> 'b effects \<Rightarrow> operation \<Rightarrow>
   controller_state \<times> 'b effects" where
  "step apiGet w (Locate lat lng z) = (handleLocate lat lng z (fst w), snd w)"
| "step apiGet w (Click latlng) = handleClick apiGet latlng w"
| "step apiGet w ToggleLayerGroup = (layerSwitch (fst w), snd w)"

definition run ::
  "(number \<times> number \<Rightarrow> 'b api_result) \<Rightarrow> operation list \<Rightarrow> controller_state \<times> 'b effects \<Rightarrow>
   controller_state \<times> 'b effects" where
  "run apiGet ops w = foldl (step apiGet) w ops"

text \<open>The bounds \<open>minZoom={9}\<close> and \<open>maxZoom={18}\<close> handed to \<open>MapContainer\<close>.\<close>

definition minZoom :: number where "minZoom = 9"
definition maxZoom :: number where "maxZoom = 18"

definition zoom_in_bounds :: "controller_state \<Rightarrow> bool" where
  "zoom_in_bounds s = (minZoom \<le> zoom s \<and> zoom s \<le> maxZoom)"

fun locate_zoom_in_bounds :: "operation \<Rightarrow> bool" where
  "locate_zoom_in_bounds (Locate lat lng z) = (minZoom \<le> z \<and> z \<le> maxZoom)"
| "locate_zoom_in_bounds (Click latlng) = True"
| "locate_zoom_in_bounds ToggleLayerGroup = True"

text \<open>
  Modelled from the spec: the constant \<open>initialMapViewport\<close> of the map configuration is
  not in the sources. The data model of the spec gives the viewport, its initial default
  included, a zoom within \<open>minZoom\<close> and \<open>maxZoom\<close> (9 and 18); a configuration is a
  viewport with such a zoom, and \<open>configured_viewport\<close> reads the value of the constant.
\<close>

typedef map_config =
  "{vp :: map_viewport. minZoom \<le> viewport_zoom vp \<and> viewport_zoom vp \<le> maxZoom}"
  morphisms configured_viewport make_map_config
  by (rule exI [of _ "\<lparr> viewport_position = (0, 0), viewport_zoom = 9 \<rparr>"])
     (simp add: minZoom_def maxZoom_def)

subsection \<open>The rendered tree\<close>

text \<open>
  The layer components are opaque; an element records the component and its props.
  \<open>TextNode n\<close> is the text React renders for a number that is the value of a JSX
  expression, as in \<open>{0 && <X/>}\<close>, whose value is \<open>0\<close>.
\<close>

datatype ('th, 't) layer =
    CityBaseMapLayer 'th
  | BuildingBaseLayer 'th
  | ConservationAreaBoundaryLayer
  | BuildingDataLayer 't string
  | CityBoundaryLayer
  | HistoricDataLayer
  | BoroughBoundaryLayer
  | ParcelBoundaryLayer
  | FloodBoundaryLayer
  | VistaBoundaryLayer
  | HousingBoundaryLayer
  | CreativeBoundaryLayer
  | BuildingNumbersLayer string
  | BuildingHighlightLayer number "'t option"
  | TextNode number

text \<open>
  The children of \<open>MapContainer\<close>. \<open>PaneEl name zIndex key children\<close> is a \<open>Pane\<close>;
  \<open>LayerEl\<close> is a layer placed directly under the container.
\<close>

datatype ('th, 't) map_child =
    ClickHandlerEl
  | MapBackgroundColorEl 'th
  | MapViewportEl "number \<times> number" number
  | PaneEl string nat "'th option" "('th, 't) layer list"
  | LayerEl "('th, 't) layer"
  | ZoomControlEl string
  | AttributionControlEl string

record ('th, 't) map_container =
  center :: "number \<times> number"
  container_zoom :: number
  container_minZoom :: number
  container_maxZoom :: number
  doubleClickZoom :: bool
  zoomControl :: bool
  attributionControl :: bool
  children :: "('th, 't) map_child list"

text \<open>The overlay chrome next to the map container.\<close>

datatype ('th, 't, 'd) widget =
    Legend "'d list" "'t option"
  | ThemeSwitcher 'th
  | DataLayerSwitcher LayerEnablementState
  | BoroughSwitcher
  | ParcelSwitcher
  | FloodSwitcher
  | ConservationAreaSwitcher
  | HistoricDataSwitcher
  | VistaSwitcher
  | HousingSwitcher
  | CreativeSwitcher
  | SearchBox

record ('th, 't, 'd) rendered =
  container :: "('th, 't) map_container"
  overlay :: "('th, 't, 'd) widget list"

text \<open>\<open>hasSelection = selectedBuildingId != undefined\<close>.\<close>

definition hasSelection :: "('t, 'd) props \<Rightarrow> bool" where
  "hasSelection p = (selectedBuildingId p \<noteq> None)"

text \<open>
  \<open>{ mapColourScale && <BuildingDataLayer tileset={mapColourScale} revisionId={revisionId}/> }\<close>
\<close>

definition buildingDataTier :: "('t, 'd) props \<Rightarrow> ('th, 't) map_child list" where
  "buildingDataTier p =
     (case mapColourScale p of
        None \<Rightarrow> []
      | Some tileset \<Rightarrow> [LayerEl (BuildingDataLayer tileset (revisionId p))])"

text \<open>
  \<open>{ selectedBuildingId && <BuildingHighlightLayer .../> }\<close>: \<open>undefined\<close> renders nothing,
  the falsy number \<open>0\<close> is itself the value of the expression and is rendered as text,
  any other number gives the layer.
\<close>

definition highlightTier :: "('t, 'd) props \<Rightarrow> ('th, 't) layer list" where
  "highlightTier p =
     (case selectedBuildingId p of
        None \<Rightarrow> []
      | Some n \<Rightarrow> if n = 0 then [TextNode n]
                  else [BuildingHighlightLayer n (mapColourScale p)])"

definition boundarySwitchers :: "controller_state \<Rightarrow> ('th, 't, 'd) widget list" where
  "boundarySwitchers s =
     (if dataLayers s = Enabled
      then [BoroughSwitcher, ParcelSwitcher, FloodSwitcher, ConservationAreaSwitcher,
            HistoricDataSwitcher, VistaSwitcher, HousingSwitcher, CreativeSwitcher]
      else [])"

definition ColouringMap ::
  "map_viewport \<Rightarrow> 'th \<Rightarrow> ('t, 'd) props \<Rightarrow> controller_state \<Rightarrow> ('th, 't, 'd) rendered" where
  "ColouringMap initialMapViewport darkLightTheme p s =
     \<lparr> container =
         \<lparr> center = viewport_position initialMapViewport,
           container_zoom = viewport_zoom initialMapViewport,
           container_minZoom = minZoom,
           container_maxZoom = maxZoom,
           doubleClickZoom = False,
           zoomControl = False,
           attributionControl = False,
           children =
             [ ClickHandlerEl,
               MapBackgroundColorEl darkLightTheme,
               MapViewportEl (position s) (zoom s),
               PaneEl ''cc-base-pane'' 50 (Some darkLightTheme)
                 [CityBaseMapLayer darkLightTheme, BuildingBaseLayer darkLightTheme],
               PaneEl ''cc-overlay-pane-shown-behind-buildings'' 199 None
                 [ConservationAreaBoundaryLayer] ]
             @ buildingDataTier p
             @ [ PaneEl ''cc-overlay-pane'' 300 None
                   ([ CityBoundaryLayer, HistoricDataLayer, BoroughBoundaryLayer,
                      ParcelBoundaryLayer, FloodBoundaryLayer, VistaBoundaryLayer,
                      HousingBoundaryLayer, CreativeBoundaryLayer,
                      BuildingNumbersLayer (revisionId p) ]
                    @ highlightTier p),
                 ZoomControlEl ''topright'',
                 AttributionControlEl [] ] \<rparr>,
       overlay =
         (if mode p \<noteq> Basic
          then [ Legend (categoryMapDefinitions p) (mapColourScale p),
                 ThemeSwitcher darkLightTheme,
                 DataLayerSwitcher (dataLayers s) ]
               @ boundarySwitchers s
               @ [SearchBox]
          else []) \<rparr>"

subsection \<open>Reading the rendered tree\<close>

fun layers_of :: "('th, 't) map_child \<Rightarrow> ('th, 't) layer list" where
  "layers_of (PaneEl name zIndex k ls) = ls"
| "layers_of (LayerEl l) = [l]"
| "layers_of ClickHandlerEl = []"
| "layers_of (MapBackgroundColorEl th) = []"
| "layers_of (MapViewportEl pos z) = []"
| "layers_of (ZoomControlEl pos) = []"
| "layers_of (AttributionControlEl prefix) = []"

definition all_layers :: "('th, 't, 'd) rendered \<Rightarrow> ('th, 't) layer list" where
  "all_layers r = concat (map layers_of (children (container r)))"

fun is_highlight :: "('th, 't) layer \<Rightarrow> bool" where
  "is_highlight (BuildingHighlightLayer n ts) = True"
| "is_highlight other = False"

fun is_building_data :: "('th, 't) layer \<Rightarrow> bool" where
  "is_building_data (BuildingDataLayer ts revision) = True"
| "is_building_data other = False"

definition highlight_layers :: "('th, 't, 'd) rendered \<Rightarrow> ('th, 't) layer list" where
  "highlight_layers r = filter is_highlight (all_layers r)"

definition building_data_layers :: "('th, 't, 'd) rendered \<Rightarrow> ('th, 't) layer list" where
  "building_data_layers r = filter is_building_data (all_layers r)"

fun is_boundary_switcher :: "('th, 't, 'd) widget \<Rightarrow> bool" where
  "is_boundary_switcher BoroughSwitcher = True"
| "is_boundary_switcher ParcelSwitcher = True"
| "is_boundary_switcher FloodSwitcher = True"
| "is_boundary_switcher ConservationAreaSwitcher = True"
| "is_boundary_switcher HistoricDataSwitcher = True"
| "is_boundary_switcher VistaSwitcher = True"
| "is_boundary_switcher HousingSwitcher = True"
| "is_boundary_switcher CreativeSwitcher = True"
| "is_boundary_switcher other = False"

subsection \<open>The background colour effect\<close>

text \<open>
  \<open>MapBackgroundColor\<close>: \<open>map.getContainer().style.backgroundColor = mapBackgroundColor[theme]\<close>.
  The table \<open>mapBackgroundColor\<close> comes from the map configuration and is a parameter.
\<close>

record container_style =
  backgroundColor :: string

definition MapBackgroundColor :: "('th \<Rightarrow> string) \<Rightarrow> 'th \<Rightarrow> container_style \<Rightarrow> container_style" where
  "MapBackgroundColor mapBackgroundColor theme st = st\<lparr> backgroundColor := mapBackgroundColor theme \<rparr>"

text \<open>The effects of the children on the style of the container, run in order after a render.\<close>

fun child_effect :: "('th \<Rightarrow> string) \<Rightarrow> ('th, 't) map_child \<Rightarrow> container_style \<Rightarrow> container_style" where
  "child_effect tbl (MapBackgroundColorEl theme) st = MapBackgroundColor tbl theme st"
| "child_effect tbl other st = st"

definition run_effects :: "('th \<Rightarrow> string) \<Rightarrow> ('th, 't, 'd) rendered \<Rightarrow> container_style \<Rightarrow> container_style" where
  "run_effects tbl r st = fold (child_effect tbl) (children (container r)) st"

section \<open>Properties\<close>

lemma step_zoom_in_bounds:
  "zoom_in_bounds (fst w) \<Longrightarrow> locate_zoom_in_bounds op \<Longrightarrow> zoom_in_bounds (fst (step apiGet w op))"
  by (cases op)
     (auto simp: zoom_in_bounds_def handleLocate_def layerSwitch_def handleClick_def Let_def
           split: api_result.splits)

lemma foldl_step_zoom_in_bounds:
  "zoom_in_bounds (fst w) \<Longrightarrow> \<forall>op \<in> set ops. locate_zoom_in_bounds op \<Longrightarrow>
   zoom_in_bounds (fst (foldl (step apiGet) w ops))"
proof (induction ops arbitrary: w)
  case Nil
  then show ?case by simp
next
  case (Cons op ops)
  from Cons.prems have "zoom_in_bounds (fst (step apiGet w op))"
    by (simp add: step_zoom_in_bounds)
  with Cons.prems show ?case
    by (simp add: Cons.IH)
qed

lemma highlight_layers_undefined:
  "selectedBuildingId p = None \<Longrightarrow> highlight_layers (ColouringMap vp th p s) = []"
  by (cases "mapColourScale p")
     (simp_all add: highlight_layers_def all_layers_def ColouringMap_def buildingDataTier_def
        highlightTier_def)

lemma highlight_layers_truthy:
  "selectedBuildingId p = Some n \<Longrightarrow> n \<noteq> 0 \<Longrightarrow>
   highlight_layers (ColouringMap vp th p s) = [BuildingHighlightLayer n (mapColourScale p)]"
  by (cases "mapColourScale p")
     (simp_all add: highlight_layers_def all_layers_def ColouringMap_def buildingDataTier_def
        highlightTier_def)

subsection \<open>The click handler\<close>

text \<open>
  Claim C1, as the code has it: every click issues one lookup for the clicked point, and
  when the lookup resolves the action callback is called exactly once, with the first
  entity when the result holds at least one and with \<open>undefined\<close> when the result is
  empty or absent; when the lookup rejects the callback is not called.
\<close>

theorem handleClick_action_calls:
  "lookups (snd (handleClick apiGet latlng (s, fx))) = lookups fx @ [latlng] \<and>
   actions (snd (handleClick apiGet latlng (s, fx))) =
     actions fx @
       (case apiGet latlng of
          Rejected \<Rightarrow> []
        | Resolved NoData \<Rightarrow> [None]
        | Resolved (DataArray []) \<Rightarrow> [None]
        | Resolved (DataArray (b # bs)) \<Rightarrow> [Some b])"
  by (simp add: handleClick_def Let_def split: api_result.splits api_data.splits list.splits)

text \<open>
  Claim C1 as stated says that the callback is not called when the lookup resolves to zero
  entities. On a click whose lookup resolves to the empty array the callback is called
  once, with \<open>undefined\<close>.
\<close>

theorem handleClick_empty_result_counterexample:
  "actions (snd (handleClick (\<lambda>q. Resolved (DataArray ([] :: nat list))) (0, 0)
      (initial_state \<lparr> viewport_position = (0, 0), viewport_zoom = 12 \<rparr>, no_effects))) = [None]"
  by (simp add: handleClick_def Let_def no_effects_def)

subsection \<open>The highlight layer\<close>

text \<open>
  Claim C2 says that a defined \<open>selectedBuildingId\<close>, 0 included, gives exactly one
  highlight layer. With the id 0 the component has a selection by its own
  \<open>hasSelection\<close>, yet the render guard is the truthiness of the id: no highlight layer
  is rendered, and the text 0 is rendered in its place.
\<close>

theorem highlight_layer_missing_for_id_zero:
  "hasSelection (p\<lparr> selectedBuildingId := Some 0 \<rparr>) \<and>
   highlight_layers (ColouringMap vp th (p\<lparr> selectedBuildingId := Some 0 \<rparr>) s) = [] \<and>
   TextNode 0 \<in> set (all_layers (ColouringMap vp th (p\<lparr> selectedBuildingId := Some 0 \<rparr>) s))"
  by (cases "mapColourScale p")
     (simp_all add: hasSelection_def highlight_layers_def all_layers_def ColouringMap_def
        buildingDataTier_def highlightTier_def)

subsection \<open>The zoom bounds\<close>

text \<open>
  Claim C3 says that the zoom of the viewport stays within 9 and 18 under every operation,
  \<open>locate\<close> with an arbitrary zoom included. From a state within the bounds,
  \<open>locate(0, 0, 25)\<close> leads to a state outside them.
\<close>

theorem locate_zoom_out_of_bounds_counterexample:
  "zoom_in_bounds (initial_state \<lparr> viewport_position = (0, 0), viewport_zoom = 12 \<rparr>) \<and>
   \<not> zoom_in_bounds (handleLocate 0 0 25 (initial_state \<lparr> viewport_position = (0, 0), viewport_zoom = 12 \<rparr>))"
  by (simp add: zoom_in_bounds_def handleLocate_def initial_state_def minZoom_def maxZoom_def)

text \<open>
  Claim C3, as the code has it: the zoom of the viewport is within 9 and 18 in every
  state that the controller reaches by operations whose \<open>locate\<close> calls pass a zoom
  within 9 and 18. It holds of the initial viewport; toggling the layer group and
  clicking never change the zoom; \<open>locate\<close> stores its zoom argument as it is, so it
  keeps the bounds when that argument is within them; hence every run of such
  operations, from the initial state or from any state within the bounds, ends within
  the bounds.
\<close>

theorem zoom_bounds_preserved:
  "zoom_in_bounds (initial_state (configured_viewport cfg)) \<and>
   zoom (layerSwitch s) = zoom s \<and>
   zoom (fst (handleClick apiGet latlng (s, fx))) = zoom s \<and>
   zoom (handleLocate lat lng z s) = z \<and>
   (zoom_in_bounds s \<and> (\<forall>op \<in> set ops. locate_zoom_in_bounds op) \<longrightarrow>
      zoom_in_bounds (fst (run apiGet ops (s, fx)))) \<and>
   ((\<forall>op \<in> set ops. locate_zoom_in_bounds op) \<longrightarrow>
      zoom_in_bounds (fst (run apiGet ops (initial_state (configured_viewport cfg), fx))))"
proof -
  have init: "zoom_in_bounds (initial_state (configured_viewport cfg))"
    using configured_viewport [of cfg] by (simp add: zoom_in_bounds_def initial_state_def)
  have toggle: "zoom (layerSwitch s) = zoom s"
    by (simp add: layerSwitch_def Let_def)
  have click: "zoom (fst (handleClick apiGet latlng (s, fx))) = zoom s"
    by (simp add: handleClick_def Let_def split: api_result.splits)
  have locate: "zoom (handleLocate lat lng z s) = z"
    by (simp add: handleLocate_def)
  have runs: "zoom_in_bounds (fst (run apiGet ops (s', fx)))"
    if "zoom_in_bounds s'" and "\<forall>op \<in> set ops. locate_zoom_in_bounds op" for s'
    using that foldl_step_zoom_in_bounds [of "(s', fx)" ops apiGet] by (simp add: run_def)
  from init toggle click locate runs [of s] runs [OF init] show ?thesis
    by blast
qed

text \<open>
  Claim C3, a run that meets the hypotheses: with an initial viewport of zoom 12,
  \<open>locate(51.5, -0.1, 14)\<close>, a toggle and a click, from the initial state and from a
  state of zoom 9.
\<close>

theorem zoom_bounds_preserved_witness:
  "zoom_in_bounds \<lparr> dataLayers = Enabled, position = (1, 2), zoom = 9 \<rparr> \<and>
   locate_zoom_in_bounds (Locate (103 / 2) (- 1 / 10) 14) \<and>
   locate_zoom_in_bounds ToggleLayerGroup \<and>
   locate_zoom_in_bounds (Click (1, 2)) \<and>
   zoom_in_bounds (fst (run (\<lambda>q. Resolved (DataArray [42 :: nat]))
      [Locate (103 / 2) (- 1 / 10) 14, ToggleLayerGroup, Click (1, 2)]
      (\<lparr> dataLayers = Enabled, position = (1, 2), zoom = 9 \<rparr>, no_effects))) \<and>
   zoom_in_bounds (fst (run (\<lambda>q. Resolved (DataArray [42 :: nat]))
      [Locate (103 / 2) (- 1 / 10) 14, ToggleLayerGroup, Click (1, 2)]
      (initial_state (configured_viewport
         (make_map_config \<lparr> viewport_position = (0, 0), viewport_zoom = 12 \<rparr>)), no_effects)))"
proof -
  have a: "zoom_in_bounds \<lparr> dataLayers = Enabled, position = (1, 2), zoom = 9 \<rparr>"
    by (simp add: zoom_in_bounds_def minZoom_def maxZoom_def)
  have b: "\<forall>op \<in> set [Locate (103 / 2) (- 1 / 10) 14, ToggleLayerGroup, Click (1, 2)].
             locate_zoom_in_bounds op"
    by (simp add: minZoom_def maxZoom_def)
  from a b
    zoom_bounds_preserved
      [of "make_map_config \<lparr> viewport_position = (0, 0), viewport_zoom = 12 \<rparr>"
          "\<lparr> dataLayers = Enabled, position = (1, 2), zoom = 9 \<rparr>"
          "\<lambda>q. Resolved (DataArray [42 :: nat])" "(1, 2)" no_effects 0 0 14
          "[Locate (103 / 2) (- 1 / 10) 14, ToggleLayerGroup, Click (1, 2)]"]
  show ?thesis by simp
qed

subsection \<open>Locate\<close>

text \<open>
  Claim C4: after \<open>locate(lat, lng, zoom)\<close> from any state, the position is \<open>(lat, lng)\<close>
  and the zoom is \<open>zoom\<close>, and the next render hands exactly these to the viewport
  component.
\<close>

theorem handleLocate_sets_viewport:
  "position (handleLocate lat lng z s) = (lat, lng) \<and>
   zoom (handleLocate lat lng z s) = z \<and>
   MapViewportEl (lat, lng) z \<in>
     set (children (container (ColouringMap vp th p (handleLocate lat lng z s))))"
  by (simp add: handleLocate_def ColouringMap_def)

subsection \<open>The layer group toggle\<close>

text \<open>
  Claim C5: one toggle maps \<open>enabled\<close> to \<open>disabled\<close> and \<open>disabled\<close> to \<open>enabled\<close>,
  and two toggles in a row give back the state they started from.
\<close>

theorem layerSwitch_flips_and_involutive:
  "dataLayers (layerSwitch (s\<lparr> dataLayers := Enabled \<rparr>)) = Disabled \<and>
   dataLayers (layerSwitch (s\<lparr> dataLayers := Disabled \<rparr>)) = Enabled \<and>
   layerSwitch (layerSwitch s) = s"
  by (cases "dataLayers s") (simp_all add: layerSwitch_def Let_def)

subsection \<open>The overlay chrome\<close>

text \<open>
  Claim C6: in mode \<open>basic\<close> no overlay chrome is rendered (no legend, no switcher, no
  search box), whatever the other props, the theme and the state are.
\<close>

theorem basic_mode_no_overlay:
  "overlay (ColouringMap vp th (p\<lparr> mode := Basic \<rparr>) s) = []"
  by (simp add: ColouringMap_def)

text \<open>
  Claim C7: the boundary switchers that are rendered are all eight of them when the mode
  is not \<open>basic\<close> and the layer group is enabled, and none of them otherwise.
\<close>

theorem boundary_switchers_gated:
  "filter is_boundary_switcher (overlay (ColouringMap vp th p s)) =
     (if mode p \<noteq> Basic \<and> dataLayers s = Enabled
      then [BoroughSwitcher, ParcelSwitcher, FloodSwitcher, ConservationAreaSwitcher,
            HistoricDataSwitcher, VistaSwitcher, HousingSwitcher, CreativeSwitcher]
      else [])"
  by (simp add: ColouringMap_def boundarySwitchers_def)

subsection \<open>The building data layer\<close>

text \<open>
  Claim C8: the building data layers of a render are none when no colour scale is set, and
  exactly one, with that colour scale and the current revision id, when one is set.
\<close>

theorem building_data_layer_gated:
  "building_data_layers (ColouringMap vp th p s) =
     (case mapColourScale p of
        None \<Rightarrow> []
      | Some tileset \<Rightarrow> [BuildingDataLayer tileset (revisionId p)])"
  by (cases "selectedBuildingId p"; cases "mapColourScale p")
     (simp_all add: building_data_layers_def all_layers_def ColouringMap_def buildingDataTier_def
        highlightTier_def)

subsection \<open>The background colour\<close>

text \<open>
  Claim C9: the background colour applied after a render is the entry of the lookup table
  at the current theme; two renders with the same theme apply the same colour, whatever
  the props, the state, the initial viewport and the previous style are.
\<close>

theorem background_colour_depends_on_theme_only:
  "backgroundColor (run_effects tbl (ColouringMap vp th p s) st) = tbl th \<and>
   backgroundColor (run_effects tbl (ColouringMap vp th p s) st) =
   backgroundColor (run_effects tbl (ColouringMap vp' th p' s') st')"
  by (cases "mapColourScale p"; cases "mapColourScale p'")
     (simp_all add: run_effects_def ColouringMap_def buildingDataTier_def MapBackgroundColor_def)

subsection \<open>Frame conditions\<close>

text \<open>
  Claim C10: \<open>locate\<close> leaves the layer enablement unchanged, the toggle leaves position
  and zoom unchanged, and a click leaves the whole controller state unchanged, whatever
  the lookup delivers.
\<close>

theorem operations_frame:
  "dataLayers (handleLocate lat lng z s) = dataLayers s \<and>
   position (layerSwitch s) = position s \<and>
   zoom (layerSwitch s) = zoom s \<and>
   fst (handleClick apiGet latlng (s, fx)) = s"
  by (simp add: handleLocate_def layerSwitch_def handleClick_def Let_def split: api_result.splits)

end
